theory Spec2Isabelle
  imports Main "HOL-Library.Word"
begin

section \<open>The command \<open>tesla-http-proxy\<close>: configuration, key comparison, transport\<close>

text \<open>
  A shallow embedding of \<^verbatim>\<open>cmd/tesla-http-proxy/main.go\<close>. The file holds two functions
  with behaviour of their own, \<^verbatim>\<open>readFromEnvironment\<close> and \<^verbatim>\<open>main\<close>. The global
  \<^verbatim>\<open>httpConfig\<close> is passed and returned explicitly, the process environment is a partial
  map from names to values, and everything \<^verbatim>\<open>main\<close> does to the outside (writes to standard
  error, log calls, calls of the collaborating packages, the exit status) is recorded as a
  trace of events followed by a final status.
\<close>

subsection \<open>Constants of the source\<close>

definition cacheSize :: nat where
  "cacheSize = 10000"

definition defaultPort :: int where
  "defaultPort = 8080"

definition EnvTLSCert :: string where
  "EnvTLSCert = ''TESLA_HTTP_PROXY_TLS_CERT''"

definition EnvTLSKey :: string where
  "EnvTLSKey = ''TESLA_HTTP_PROXY_TLS_KEY''"

definition EnvHost :: string where
  "EnvHost = ''TESLA_HTTP_PROXY_HOST''"

definition EnvPort :: string where
  "EnvPort = ''TESLA_HTTP_PROXY_PORT''"

definition EnvTimeout :: string where
  "EnvTimeout = ''TESLA_HTTP_PROXY_TIMEOUT''"

definition EnvVerbose :: string where
  "EnvVerbose = ''TESLA_VERBOSE''"

definition EnvDisableTLS :: string where
  "EnvDisableTLS = ''TESLA_HTTP_PROXY_DISABLE_TLS''"

definition newline :: string where
  "newline = [CHR 0x0A]"

text \<open>The raw string literal of the source: it starts with a line break and has three lines.\<close>

definition nonLocalhostWarning :: string where
  "nonLocalhostWarning =
     CHR 0x0A #
     ''Do not listen on a network interface without adding client authentication. Unauthorized clients may'' @
     CHR 0x0A #
     ''be used to create excessive traffic from your IP address to Tesla'' @ CHR 0x27 #
     ''s servers, which Tesla may respond'' @
     CHR 0x0A #
     ''to by rate limiting or blocking your connections.''"

subsection \<open>The configuration record\<close>

text \<open>
  \<^verbatim>\<open>HTTProxyConfig\<close>. A Go \<^verbatim>\<open>int\<close> and a \<^verbatim>\<open>time.Duration\<close> (nanoseconds) are
  modelled as \<^typ>\<open>int\<close>: the program stores, compares and prints them and does no arithmetic
  on them.
\<close>

record HTTProxyConfig =
  keyFilename :: string
  certFilename :: string
  verbose :: bool
  host :: string
  port :: int
  timeout :: int

text \<open>
  The values that \<^verbatim>\<open>init\<close> registers as flag defaults; \<^verbatim>\<open>proxy.DefaultTimeout\<close> is a
  constant of another package and stays a parameter.
\<close>

definition flag_defaults :: "int \<Rightarrow> HTTProxyConfig" where
  "flag_defaults defaultTimeout =
     \<lparr>keyFilename = '''', certFilename = '''', verbose = False,
      host = ''localhost'', port = defaultPort, timeout = defaultTimeout\<rparr>"

subsection \<open>The process environment\<close>

type_synonym environment = "string \<Rightarrow> string option"

text \<open>\<^verbatim>\<open>os.LookupEnv name\<close> is the map itself; \<^verbatim>\<open>os.Getenv\<close> gives the empty string for
  a variable that is not set.\<close>

definition Getenv :: "environment \<Rightarrow> string \<Rightarrow> string" where
  "Getenv env name = (case env name of None \<Rightarrow> '''' | Some v \<Rightarrow> v)"

subsection \<open>\<^verbatim>\<open>readFromEnvironment\<close>\<close>

text \<open>
  The function is a sequence of six guarded assignments to the global record, one for each
  field. Each of them is a definition here, in the order of the source, and
  \<open>readFromEnvironment\<close> composes them.

  Lines 166 to 168 and 170 to 172: the two file names are read with \<^verbatim>\<open>os.Getenv\<close>.
\<close>

definition resolve_certFilename :: "environment \<Rightarrow> HTTProxyConfig \<Rightarrow> HTTProxyConfig" where
  "resolve_certFilename env c =
     (if certFilename c = '''' then c\<lparr>certFilename := Getenv env EnvTLSCert\<rparr> else c)"

definition resolve_keyFilename :: "environment \<Rightarrow> HTTProxyConfig \<Rightarrow> HTTProxyConfig" where
  "resolve_keyFilename env c =
     (if keyFilename c = '''' then c\<lparr>keyFilename := Getenv env EnvTLSKey\<rparr> else c)"

text \<open>Lines 174 to 179.\<close>

definition resolve_host :: "environment \<Rightarrow> HTTProxyConfig \<Rightarrow> HTTProxyConfig" where
  "resolve_host env c =
     (if host c = ''localhost'' then
        (case env EnvHost of Some h \<Rightarrow> c\<lparr>host := h\<rparr> | None \<Rightarrow> c)
      else c)"

text \<open>Lines 181 to 185.\<close>

definition resolve_verbose :: "environment \<Rightarrow> HTTProxyConfig \<Rightarrow> HTTProxyConfig" where
  "resolve_verbose env c =
     (if \<not> verbose c then
        (case env EnvVerbose of
           Some v \<Rightarrow> c\<lparr>verbose := (v \<noteq> ''false'' \<and> v \<noteq> ''0'')\<rparr>
         | None \<Rightarrow> c)
      else c)"

text \<open>
  The parsers \<^verbatim>\<open>strconv.Atoi\<close> and \<^verbatim>\<open>time.ParseDuration\<close> belong to the Go library and
  are parameters. Each returns a value together with an optional error, as in Go; the value
  is assigned to the field also when the error is set (lines 190 and 199).

  Lines 188 to 195: the record after the step, and the error if the function returns here.
\<close>

definition resolve_port ::
  "(string \<Rightarrow> int \<times> string option) \<Rightarrow> environment \<Rightarrow> HTTProxyConfig
     \<Rightarrow> HTTProxyConfig \<times> string option" where
  "resolve_port atoi env c =
     (if port c = defaultPort then
        (case env EnvPort of
           Some p \<Rightarrow>
             (case atoi p of
                (n, Some e) \<Rightarrow> (c\<lparr>port := n\<rparr>, Some (''invalid port: '' @ p))
              | (n, None) \<Rightarrow> (c\<lparr>port := n\<rparr>, None))
         | None \<Rightarrow> (c, None))
      else (c, None))"

text \<open>Lines 197 to 206.\<close>

definition resolve_timeout ::
  "(string \<Rightarrow> int \<times> string option) \<Rightarrow> int \<Rightarrow> environment \<Rightarrow> HTTProxyConfig
     \<Rightarrow> HTTProxyConfig \<times> string option" where
  "resolve_timeout parseDuration defaultTimeout env c =
     (if timeout c = defaultTimeout then
        (case env EnvTimeout of
           Some timeoutEnv \<Rightarrow>
             (case parseDuration timeoutEnv of
                (d, Some e) \<Rightarrow> (c\<lparr>timeout := d\<rparr>, Some (''invalid timeout: '' @ timeoutEnv))
              | (d, None) \<Rightarrow> (c\<lparr>timeout := d\<rparr>, None))
         | None \<Rightarrow> (c, None))
      else (c, None))"

text \<open>The whole function (lines 165 to 206): the record after the call and the error returned.\<close>

definition readFromEnvironment ::
  "(string \<Rightarrow> int \<times> string option) \<Rightarrow> (string \<Rightarrow> int \<times> string option) \<Rightarrow> int
     \<Rightarrow> environment \<Rightarrow> HTTProxyConfig \<Rightarrow> HTTProxyConfig \<times> string option" where
  "readFromEnvironment atoi parseDuration defaultTimeout env c0 =
     (let c1 = resolve_certFilename env c0;
          c2 = resolve_keyFilename env c1;
          c3 = resolve_host env c2;
          c4 = resolve_verbose env c3
      in case resolve_port atoi env c4 of
           (c5, Some e) \<Rightarrow> (c5, Some e)
         | (c5, None) \<Rightarrow> resolve_timeout parseDuration defaultTimeout env c5)"

subsection \<open>What \<^verbatim>\<open>main\<close> does to the outside\<close>

text \<open>The request handler made by \<^verbatim>\<open>proxy.New\<close>: its \<^verbatim>\<open>Timeout\<close> field, which
  \<^verbatim>\<open>main\<close> assigns, and the rest of it, which \<^verbatim>\<open>main\<close> never looks at.\<close>

record 'h Proxy =
  Timeout :: int
  engine :: 'h

datatype 'h event =
    Stderr string
  | SetLevelDebug
  | LogDebug string
  | LogInfo string
  | LogError string
  | Call_LoadPublicKey string
  | Call_proxy_New
  | Call_ListenAndServeTLS string string string "'h Proxy"
  | Call_ListenAndServe string "'h Proxy"

text \<open>How the process ends: with an exit status, or never, when the listener keeps serving.\<close>

datatype status = Exit nat | Serving

type_synonym 'h run = "'h event list \<times> status"

definition emit :: "'h event list \<Rightarrow> 'h run \<Rightarrow> 'h run" where
  "emit evs r = (evs @ fst r, snd r)"

text \<open>
  Everything \<^verbatim>\<open>main\<close> gets from outside: the results of the calls into the packages
  \<^verbatim>\<open>cli\<close>, \<^verbatim>\<open>protocol\<close>, \<^verbatim>\<open>proxy\<close> and \<^verbatim>\<open>net/http\<close>, the record as
  \<^verbatim>\<open>flag.Parse\<close> leaves it, and the environment. An error is present as its text. A key
  loaded by \<^verbatim>\<open>protocol.LoadPublicKey\<close> is present as its \<^verbatim>\<open>Bytes()\<close>. A listener call
  either never returns (\<open>None\<close>) or returns an error.
\<close>

record ('k, 'h) world =
  NewConfig_err :: "string option"
  flags :: HTTProxyConfig
  environ :: environment
  Atoi :: "string \<Rightarrow> int \<times> string option"
  ParseDuration :: "string \<Rightarrow> int \<times> string option"
  DefaultTimeout :: int
  PrivateKey :: "'k \<times> string option"
  PublicBytes :: "'k \<Rightarrow> 8 word list"
  LoadPublicKey :: "string \<Rightarrow> 8 word list \<times> string option"
  proxy_New :: "'k \<Rightarrow> nat \<Rightarrow> 'h Proxy \<times> string option"
  http_ListenAndServeTLS :: "string \<Rightarrow> string \<Rightarrow> string \<Rightarrow> 'h Proxy \<Rightarrow> string option"
  http_ListenAndServe :: "string \<Rightarrow> 'h Proxy \<Rightarrow> string option"

subsection \<open>Formatting\<close>

text \<open>The verb \<^verbatim>\<open>%d\<close> of \<^verbatim>\<open>fmt.Sprintf\<close> on an integer.\<close>

fun decimal :: "nat \<Rightarrow> string" where
  "decimal n =
     (if n < 10 then [''0123456789'' ! n]
      else decimal (n div 10) @ [''0123456789'' ! (n mod 10)])"

declare decimal.simps [simp del]

definition Sprintf_d :: "int \<Rightarrow> string" where
  "Sprintf_d i = (if i < 0 then CHR ''-'' # decimal (nat (- i)) else decimal (nat i))"

subsection \<open>\<^verbatim>\<open>main\<close>\<close>

text \<open>
  The deferred function of lines 93 to 98, run when \<^verbatim>\<open>main\<close> returns, on the value the
  variable \<^verbatim>\<open>err\<close> of \<^verbatim>\<open>main\<close> has at that moment. A return of \<^verbatim>\<open>main\<close> that the
  deferred function does not turn into \<^verbatim>\<open>os.Exit(1)\<close> ends the process with status 0.
\<close>

definition deferred :: "string option \<Rightarrow> 'h run" where
  "deferred err =
     (case err of
        Some e \<Rightarrow> ([Stderr (''Error: '' @ e @ newline)], Exit 1)
      | None \<Rightarrow> ([], Exit 0))"

text \<open>Lines 125 to 128.\<close>

definition useTLS :: "environment \<Rightarrow> bool" where
  "useTLS env = (case env EnvDisableTLS of Some disableTLS \<Rightarrow> disableTLS \<noteq> ''true'' | None \<Rightarrow> True)"

text \<open>
  Lines 146 to 160: the proxy is created and the listener started. \<^verbatim>\<open>proxy.New\<close> assigns
  the \<^verbatim>\<open>err\<close> of \<^verbatim>\<open>main\<close> (the short declaration redeclares only \<^verbatim>\<open>p\<close>), so a
  failure reaches the deferred function; once it has succeeded \<^verbatim>\<open>err\<close> is nil, also when
  the listener returns.
\<close>

definition serve :: "('k, 'h) world \<Rightarrow> HTTProxyConfig \<Rightarrow> 'k \<Rightarrow> bool \<Rightarrow> 'h run" where
  "serve w c skey tls =
     emit [LogDebug ''Creating proxy'', Call_proxy_New]
       (case proxy_New w skey cacheSize of
          (p0, Some e) \<Rightarrow>
            emit [LogError (''Error initializing proxy service: '' @ e)] (deferred (Some e))
        | (p0, None) \<Rightarrow>
            (let p = p0\<lparr>Timeout := timeout c\<rparr>;
                 addr = host c @ '':'' @ Sprintf_d (port c)
             in emit [LogInfo (''Listening on '' @ addr)]
                  (if tls \<and> certFilename c \<noteq> '''' \<and> keyFilename c \<noteq> '''' then
                     emit [Call_ListenAndServeTLS addr (certFilename c) (keyFilename c) p]
                       (case http_ListenAndServeTLS w addr (certFilename c) (keyFilename c) p of
                          Some e \<Rightarrow> emit [LogError (''Server stopped: '' @ e)] (deferred None)
                        | None \<Rightarrow> ([], Serving))
                   else
                     emit [Call_ListenAndServe addr p]
                       (case http_ListenAndServe w addr p of
                          Some e \<Rightarrow> emit [LogError (''Server stopped: '' @ e)] (deferred None)
                        | None \<Rightarrow> ([], Serving)))))"

text \<open>The three lines printed when the TLS key is the command-authentication key (134 to 136).\<close>

definition reuse_guidance :: "'h event list" where
  "reuse_guidance =
     [Stderr (''It is unsafe to use the same private key for TLS and command authentication.'' @ newline),
      Stderr ('''' @ newline),
      Stderr (''Generate a new TLS key for this server.'' @ newline)]"

text \<open>
  The whole of \<^verbatim>\<open>main\<close>. The two calls of \<^verbatim>\<open>os.Exit(1)\<close> in lines 90 and 106 end the
  process at once; every \<^verbatim>\<open>return\<close> goes through \<^const>\<open>deferred\<close>. In line 132 the
  \<^verbatim>\<open>err\<close> is a new variable of the \<^verbatim>\<open>if\<close> statement: the \<^verbatim>\<open>err\<close> of \<^verbatim>\<open>main\<close>
  keeps the nil that \<^verbatim>\<open>config.PrivateKey\<close> gave it in line 119, and that is the value the
  deferred function reads at the \<^verbatim>\<open>return\<close> of line 137.
\<close>

definition main :: "('k, 'h) world \<Rightarrow> 'h run" where
  "main w =
     (case NewConfig_err w of
        Some e \<Rightarrow> ([Stderr (''Failed to load credential configuration: '' @ e @ newline)], Exit 1)
      | None \<Rightarrow>
          (case readFromEnvironment (Atoi w) (ParseDuration w) (DefaultTimeout w) (environ w) (flags w) of
             (c, Some e) \<Rightarrow> ([Stderr (''Error reading environment: '' @ e @ newline)], Exit 1)
           | (c, None) \<Rightarrow>
               emit (if verbose c then [SetLevelDebug] else [])
              (emit (if host c \<noteq> ''localhost'' then [Stderr (nonLocalhostWarning @ newline)] else [])
                 (case PrivateKey w of
                    (skey, Some e) \<Rightarrow> deferred (Some e)
                  | (skey, None) \<Rightarrow>
                      if useTLS (environ w) then
                        emit [Call_LoadPublicKey (keyFilename c)]
                          (case LoadPublicKey w (keyFilename c) of
                             (tlsPublicKey, None) \<Rightarrow>
                               if tlsPublicKey = PublicBytes w skey then
                                 emit reuse_guidance (deferred None)
                               else
                                 emit [LogDebug ''Verified that TLS key is not the same as the command-authentication key.'']
                                   (serve w c skey True)
                           | (tlsPublicKey, Some e) \<Rightarrow>
                               emit [LogDebug ''Verified that TLS key is not a recycled command-authentication key, because it is not NIST P256.'']
                                 (serve w c skey True))
                      else serve w c skey False))))"

subsection \<open>Reading a trace\<close>

fun is_listener :: "'h event \<Rightarrow> bool" where
  "is_listener (Call_ListenAndServeTLS addr certFile keyFile p) = True"
| "is_listener (Call_ListenAndServe addr p) = True"
| "is_listener _ = False"

fun is_TLS_listener :: "'h event \<Rightarrow> bool" where
  "is_TLS_listener (Call_ListenAndServeTLS addr certFile keyFile p) = True"
| "is_TLS_listener _ = False"

text \<open>Whether a text occurs in a message as a contiguous part of it.\<close>

fun mentions :: "string \<Rightarrow> string \<Rightarrow> bool" where
  "mentions part [] = (part = [])"
| "mentions part (x # xs) = (take (length part) (x # xs) = part \<or> mentions part xs)"

text \<open>
  The specification's own word for the host that gets no warning is ``the loopback
  address''. This predicate follows that word, not the source: it holds for the host
  names that bind a listener to the loopback interface, the name \<^verbatim>\<open>localhost\<close> and the
  two loopback addresses of IPv4 and IPv6. It is compared below with the test the source
  makes, which is \<^verbatim>\<open>httpConfig.host != "localhost"\<close>.
\<close>

definition spec_loopback_address :: "string \<Rightarrow> bool" where
  "spec_loopback_address h \<longleftrightarrow> h = ''localhost'' \<or> h = ''127.0.0.1'' \<or> h = ''::1''"

subsection \<open>Concrete collaborators for the closed instances\<close>

text \<open>
  Stand-ins for the Go library and the other packages, used where a statement is evaluated
  on a concrete run: a numeral parser and a duration parser that accept two inputs each and
  reject every other string, a key loader that knows two files, a proxy constructor that
  succeeds, and listeners that keep serving.
\<close>

definition sample_Atoi :: "string \<Rightarrow> int \<times> string option" where
  "sample_Atoi s =
     (if s = ''9090'' then (9090, None)
      else if s = ''8080'' then (8080, None)
      else (0, Some (''strconv.Atoi: parsing '' @ s @ '': invalid syntax'')))"

definition sample_ParseDuration :: "string \<Rightarrow> int \<times> string option" where
  "sample_ParseDuration s =
     (if s = ''30s'' then (30000000000, None)
      else if s = ''10s'' then (10000000000, None)
      else (0, Some (''time: invalid duration '' @ s)))"

definition sample_DefaultTimeout :: int where
  "sample_DefaultTimeout = 10000000000"

definition sample_LoadPublicKey :: "string \<Rightarrow> 8 word list \<times> string option" where
  "sample_LoadPublicKey f =
     (if f = ''command.pem'' then ([4, 1, 2, 3], None)
      else if f = ''tls.pem'' then ([4, 9, 8, 7], None)
      else ([], Some (''open '' @ f @ '': no such file or directory'')))"

definition sample_world :: "(nat, unit) world" where
  "sample_world =
     \<lparr>NewConfig_err = None,
      flags = flag_defaults sample_DefaultTimeout,
      environ = Map.empty,
      Atoi = sample_Atoi,
      ParseDuration = sample_ParseDuration,
      DefaultTimeout = sample_DefaultTimeout,
      PrivateKey = (1, None),
      PublicBytes = (\<lambda>k. [4, 1, 2, 3]),
      LoadPublicKey = sample_LoadPublicKey,
      proxy_New = (\<lambda>k n. (\<lparr>Timeout = sample_DefaultTimeout, engine = ()\<rparr>, None)),
      http_ListenAndServeTLS = (\<lambda>addr certFile keyFile p. None),
      http_ListenAndServe = (\<lambda>addr p. None)\<rparr>"

definition sample_env :: environment where
  "sample_env =
     [EnvTLSCert \<mapsto> ''cert.pem'', EnvTLSKey \<mapsto> ''tls.pem'', EnvHost \<mapsto> ''0.0.0.0'',
      EnvPort \<mapsto> ''9090'', EnvTimeout \<mapsto> ''30s'', EnvVerbose \<mapsto> ''yes'']"

definition sample_flags :: HTTProxyConfig where
  "sample_flags =
     \<lparr>keyFilename = ''flag-key.pem'', certFilename = ''flag-cert.pem'', verbose = True,
      host = ''example.org'', port = 4443, timeout = 5000000000\<rparr>"

text \<open>Certificate and key given by flag, and the key file holds the command key.\<close>

definition reuse_world :: "(nat, unit) world" where
  "reuse_world =
     sample_world
       \<lparr>flags := (flag_defaults sample_DefaultTimeout)
                   \<lparr>certFilename := ''cert.pem'', keyFilename := ''command.pem''\<rparr>\<rparr>"

text \<open>Certificate and key given by flag, and the key file cannot be read.\<close>

definition unreadable_key_world :: "(nat, unit) world" where
  "unreadable_key_world =
     sample_world
       \<lparr>flags := (flag_defaults sample_DefaultTimeout)
                   \<lparr>certFilename := ''cert.pem'', keyFilename := ''missing.pem''\<rparr>\<rparr>"

text \<open>The host given by flag as an address.\<close>

definition numeric_loopback_world :: "(nat, unit) world" where
  "numeric_loopback_world =
     sample_world\<lparr>flags := (flag_defaults sample_DefaultTimeout)\<lparr>host := ''127.0.0.1''\<rparr>\<rparr>"

text \<open>The port variable and the timeout variable both hold a value that does not parse.\<close>

definition both_rejected_world :: "(nat, unit) world" where
  "both_rejected_world =
     sample_world\<lparr>environ := [EnvPort \<mapsto> ''abc'', EnvTimeout \<mapsto> ''soon'']\<rparr>"

section \<open>Properties\<close>

subsection \<open>The steps of the resolver, field by field\<close>

lemma resolve_certFilename_fields [simp]:
  "certFilename (resolve_certFilename env c) =
     (if certFilename c = '''' then Getenv env EnvTLSCert else certFilename c)"
  "keyFilename (resolve_certFilename env c) = keyFilename c"
  "host (resolve_certFilename env c) = host c"
  "verbose (resolve_certFilename env c) = verbose c"
  "port (resolve_certFilename env c) = port c"
  "timeout (resolve_certFilename env c) = timeout c"
  by (simp_all add: resolve_certFilename_def)

lemma resolve_keyFilename_fields [simp]:
  "keyFilename (resolve_keyFilename env c) =
     (if keyFilename c = '''' then Getenv env EnvTLSKey else keyFilename c)"
  "certFilename (resolve_keyFilename env c) = certFilename c"
  "host (resolve_keyFilename env c) = host c"
  "verbose (resolve_keyFilename env c) = verbose c"
  "port (resolve_keyFilename env c) = port c"
  "timeout (resolve_keyFilename env c) = timeout c"
  by (simp_all add: resolve_keyFilename_def)

lemma resolve_host_fields [simp]:
  "host (resolve_host env c) =
     (if host c = ''localhost'' then (case env EnvHost of Some h \<Rightarrow> h | None \<Rightarrow> host c)
      else host c)"
  "certFilename (resolve_host env c) = certFilename c"
  "keyFilename (resolve_host env c) = keyFilename c"
  "verbose (resolve_host env c) = verbose c"
  "port (resolve_host env c) = port c"
  "timeout (resolve_host env c) = timeout c"
  by (simp_all add: resolve_host_def split: option.split)

lemma resolve_verbose_fields [simp]:
  "verbose (resolve_verbose env c) =
     (if verbose c then True
      else (case env EnvVerbose of Some v \<Rightarrow> v \<noteq> ''false'' \<and> v \<noteq> ''0'' | None \<Rightarrow> False))"
  "certFilename (resolve_verbose env c) = certFilename c"
  "keyFilename (resolve_verbose env c) = keyFilename c"
  "host (resolve_verbose env c) = host c"
  "port (resolve_verbose env c) = port c"
  "timeout (resolve_verbose env c) = timeout c"
  by (simp_all add: resolve_verbose_def split: option.split)

lemma resolve_port_fields [simp]:
  "port (fst (resolve_port atoi env c)) =
     (if port c = defaultPort then (case env EnvPort of Some p \<Rightarrow> fst (atoi p) | None \<Rightarrow> port c)
      else port c)"
  "certFilename (fst (resolve_port atoi env c)) = certFilename c"
  "keyFilename (fst (resolve_port atoi env c)) = keyFilename c"
  "host (fst (resolve_port atoi env c)) = host c"
  "verbose (fst (resolve_port atoi env c)) = verbose c"
  "timeout (fst (resolve_port atoi env c)) = timeout c"
  by (simp_all add: resolve_port_def split: option.split prod.split)

lemma resolve_port_err:
  "snd (resolve_port atoi env c) =
     (if port c = defaultPort then
        (case env EnvPort of
           Some p \<Rightarrow> (if snd (atoi p) = None then None else Some (''invalid port: '' @ p))
         | None \<Rightarrow> None)
      else None)"
  by (simp add: resolve_port_def split: option.split prod.split)

lemma resolve_timeout_fields [simp]:
  "timeout (fst (resolve_timeout pd dt env c)) =
     (if timeout c = dt then (case env EnvTimeout of Some t \<Rightarrow> fst (pd t) | None \<Rightarrow> timeout c)
      else timeout c)"
  "certFilename (fst (resolve_timeout pd dt env c)) = certFilename c"
  "keyFilename (fst (resolve_timeout pd dt env c)) = keyFilename c"
  "host (fst (resolve_timeout pd dt env c)) = host c"
  "verbose (fst (resolve_timeout pd dt env c)) = verbose c"
  "port (fst (resolve_timeout pd dt env c)) = port c"
  by (simp_all add: resolve_timeout_def split: option.split prod.split)

lemma resolve_timeout_err:
  "snd (resolve_timeout pd dt env c) =
     (if timeout c = dt then
        (case env EnvTimeout of
           Some t \<Rightarrow> (if snd (pd t) = None then None else Some (''invalid timeout: '' @ t))
         | None \<Rightarrow> None)
      else None)"
  by (simp add: resolve_timeout_def split: option.split prod.split)

lemma readFromEnvironment_steps:
  "readFromEnvironment atoi pd dt env c =
     (let r = resolve_port atoi env
                (resolve_verbose env (resolve_host env
                   (resolve_keyFilename env (resolve_certFilename env c))))
      in if snd r = None then resolve_timeout pd dt env (fst r) else r)"
  by (simp add: readFromEnvironment_def Let_def split: prod.split option.split)

lemma rFE_certFilename:
  "certFilename (fst (readFromEnvironment atoi pd dt env c)) =
     (if certFilename c = '''' then Getenv env EnvTLSCert else certFilename c)"
  by (simp add: readFromEnvironment_steps Let_def split: option.split)

lemma rFE_keyFilename:
  "keyFilename (fst (readFromEnvironment atoi pd dt env c)) =
     (if keyFilename c = '''' then Getenv env EnvTLSKey else keyFilename c)"
  by (simp add: readFromEnvironment_steps Let_def split: option.split)

lemma rFE_host:
  "host (fst (readFromEnvironment atoi pd dt env c)) =
     (if host c = ''localhost'' then (case env EnvHost of Some h \<Rightarrow> h | None \<Rightarrow> host c)
      else host c)"
  by (simp add: readFromEnvironment_steps Let_def split: option.split)

lemma rFE_verbose:
  "verbose (fst (readFromEnvironment atoi pd dt env c)) =
     (if verbose c then True
      else (case env EnvVerbose of Some v \<Rightarrow> v \<noteq> ''false'' \<and> v \<noteq> ''0'' | None \<Rightarrow> False))"
  by (simp add: readFromEnvironment_steps Let_def split: option.split)

lemma rFE_port:
  "port (fst (readFromEnvironment atoi pd dt env c)) =
     (if port c = defaultPort then (case env EnvPort of Some p \<Rightarrow> fst (atoi p) | None \<Rightarrow> port c)
      else port c)"
  by (simp add: readFromEnvironment_steps Let_def split: option.split)

lemma rFE_timeout:
  "timeout (fst (readFromEnvironment atoi pd dt env c)) =
     (if snd (resolve_port atoi env c) = None then
        (if timeout c = dt then (case env EnvTimeout of Some t \<Rightarrow> fst (pd t) | None \<Rightarrow> timeout c)
         else timeout c)
      else timeout c)"
  by (simp add: readFromEnvironment_steps Let_def resolve_port_err split: option.split)

lemma rFE_err:
  "snd (readFromEnvironment atoi pd dt env c) =
     (if snd (resolve_port atoi env c) = None then snd (resolve_timeout pd dt env c)
      else snd (resolve_port atoi env c))"
  by (simp add: readFromEnvironment_steps Let_def resolve_port_err resolve_timeout_err
      split: option.split)

lemma readFromEnvironment_empty_defaults:
  "readFromEnvironment atoi pd dt Map.empty (flag_defaults dt) = (flag_defaults dt, None)"
  by (simp add: readFromEnvironment_def resolve_certFilename_def resolve_keyFilename_def
      resolve_host_def resolve_verbose_def resolve_port_def resolve_timeout_def Getenv_def
      flag_defaults_def)

subsection \<open>Traces of \<^verbatim>\<open>main\<close>\<close>

lemma emit_simps [simp]:
  "fst (emit evs r) = evs @ fst r"
  "snd (emit evs r) = snd r"
  by (simp_all add: emit_def)

lemma deferred_simps [simp]:
  "deferred None = ([], Exit 0)"
  "deferred (Some e) = ([Stderr (''Error: '' @ e @ newline)], Exit 1)"
  by (simp_all add: deferred_def)

lemma serve_listeners:
  assumes "proxy_New w skey cacheSize = (p0, None)"
  shows "filter is_listener (fst (serve w c skey tls)) =
     [if tls \<and> certFilename c \<noteq> '''' \<and> keyFilename c \<noteq> ''''
      then Call_ListenAndServeTLS (host c @ '':'' @ Sprintf_d (port c)) (certFilename c)
             (keyFilename c) (p0\<lparr>Timeout := timeout c\<rparr>)
      else Call_ListenAndServe (host c @ '':'' @ Sprintf_d (port c)) (p0\<lparr>Timeout := timeout c\<rparr>)]"
  using assms by (simp add: serve_def Let_def split: option.split)

lemma serve_starts:
  "take 2 (fst (serve w c skey tls)) = [LogDebug ''Creating proxy'', Call_proxy_New]"
  by (simp add: serve_def)

lemma serve_LoadPublicKey_irrelevant:
  "serve (w\<lparr>LoadPublicKey := f\<rparr>) c skey tls = serve w c skey tls"
  by (auto simp: serve_def Let_def split: prod.split option.split)

lemma warning_not_Error [simp]:
  "nonLocalhostWarning \<noteq> CHR ''E'' # rest"
  by (simp add: nonLocalhostWarning_def)

lemma warning_notin_guidance:
  "Stderr (nonLocalhostWarning @ newline) \<notin> set reuse_guidance"
  by (simp add: reuse_guidance_def nonLocalhostWarning_def)

lemma warning_notin_serve:
  "Stderr (nonLocalhostWarning @ newline) \<notin> set (fst (serve w c skey tls))"
  by (auto simp: serve_def Let_def split: option.split prod.split)


lemma list_ex_TLS_listener_filter:
  "list_ex is_TLS_listener (filter is_listener evs) = list_ex is_TLS_listener evs"
proof (induction evs)
  case Nil
  show ?case by simp
next
  case (Cons e evs)
  then show ?case by (cases e) simp_all
qed

lemma Sprintf_d_8080: "Sprintf_d 8080 = ''8080''"
  by (simp add: Sprintf_d_def decimal.simps)

lemma Sprintf_d_9090: "Sprintf_d 9090 = ''9090''"
  by (simp add: Sprintf_d_def decimal.simps)

subsection \<open>The concrete runs\<close>

lemmas Env_defs =
  EnvTLSCert_def EnvTLSKey_def EnvHost_def EnvPort_def EnvTimeout_def EnvVerbose_def
  EnvDisableTLS_def

lemmas resolver_defs =
  readFromEnvironment_def resolve_certFilename_def resolve_keyFilename_def resolve_host_def
  resolve_verbose_def resolve_port_def resolve_timeout_def Getenv_def defaultPort_def

lemmas sample_defs =
  sample_world_def sample_Atoi_def sample_ParseDuration_def sample_DefaultTimeout_def
  sample_LoadPublicKey_def sample_env_def sample_flags_def flag_defaults_def

lemma sample_world_fields:
  "NewConfig_err sample_world = None"
  "flags sample_world = flag_defaults sample_DefaultTimeout"
  "environ sample_world = Map.empty"
  "Atoi sample_world = sample_Atoi"
  "ParseDuration sample_world = sample_ParseDuration"
  "DefaultTimeout sample_world = sample_DefaultTimeout"
  "PrivateKey sample_world = (1, None)"
  "PublicBytes sample_world = (\<lambda>k. [4, 1, 2, 3])"
  "LoadPublicKey sample_world = sample_LoadPublicKey"
  "proxy_New sample_world = (\<lambda>k n. (\<lparr>Timeout = sample_DefaultTimeout, engine = ()\<rparr>, None))"
  "http_ListenAndServeTLS sample_world = (\<lambda>addr certFile keyFile p. None)"
  "http_ListenAndServe sample_world = (\<lambda>addr p. None)"
  by (simp_all add: sample_world_def)

lemma sample_resolution:
  "readFromEnvironment sample_Atoi sample_ParseDuration sample_DefaultTimeout sample_env
     (flag_defaults sample_DefaultTimeout)
   = (\<lparr>keyFilename = ''tls.pem'', certFilename = ''cert.pem'', verbose = True,
       host = ''0.0.0.0'', port = 9090, timeout = 30000000000\<rparr>, None)"
  by (simp add: resolver_defs sample_defs Env_defs)

lemma unreadable_key_world_fields:
  "NewConfig_err unreadable_key_world = None"
  "flags unreadable_key_world =
     (flag_defaults sample_DefaultTimeout)\<lparr>certFilename := ''cert.pem'', keyFilename := ''missing.pem''\<rparr>"
  "environ unreadable_key_world = Map.empty"
  "Atoi unreadable_key_world = sample_Atoi"
  "ParseDuration unreadable_key_world = sample_ParseDuration"
  "DefaultTimeout unreadable_key_world = sample_DefaultTimeout"
  "PrivateKey unreadable_key_world = (1, None)"
  "PublicBytes unreadable_key_world = (\<lambda>k. [4, 1, 2, 3])"
  "LoadPublicKey unreadable_key_world = sample_LoadPublicKey"
  "proxy_New unreadable_key_world = (\<lambda>k n. (\<lparr>Timeout = sample_DefaultTimeout, engine = ()\<rparr>, None))"
  "http_ListenAndServeTLS unreadable_key_world = (\<lambda>addr certFile keyFile p. None)"
  "http_ListenAndServe unreadable_key_world = (\<lambda>addr p. None)"
  by (simp_all add: unreadable_key_world_def sample_world_def)

lemma numeric_loopback_world_fields:
  "NewConfig_err numeric_loopback_world = None"
  "flags numeric_loopback_world = (flag_defaults sample_DefaultTimeout)\<lparr>host := ''127.0.0.1''\<rparr>"
  "environ numeric_loopback_world = Map.empty"
  "Atoi numeric_loopback_world = sample_Atoi"
  "ParseDuration numeric_loopback_world = sample_ParseDuration"
  "DefaultTimeout numeric_loopback_world = sample_DefaultTimeout"
  "PrivateKey numeric_loopback_world = (1, None)"
  "PublicBytes numeric_loopback_world = (\<lambda>k. [4, 1, 2, 3])"
  "LoadPublicKey numeric_loopback_world = sample_LoadPublicKey"
  by (simp_all add: numeric_loopback_world_def sample_world_def)

lemma numeric_loopback_resolution:
  "readFromEnvironment (Atoi numeric_loopback_world) (ParseDuration numeric_loopback_world)
     (DefaultTimeout numeric_loopback_world) (environ numeric_loopback_world)
     (flags numeric_loopback_world)
   = ((flag_defaults sample_DefaultTimeout)\<lparr>host := ''127.0.0.1''\<rparr>, None)"
  by (simp add: numeric_loopback_world_fields resolver_defs flag_defaults_def)

subsection \<open>The comparison of the TLS key with the command key\<close>



text \<open>
  C2. The exit status of a run that ends in the credential-reuse branch. The \<^verbatim>\<open>return\<close>
  of line 137 leaves the \<^verbatim>\<open>err\<close> of \<^verbatim>\<open>main\<close> nil, so the deferred function does not
  call \<^verbatim>\<open>os.Exit(1)\<close>: every such run ends with status 0, not with a non-zero status.
\<close>

theorem credential_reuse_exit_status:
  assumes "NewConfig_err w = None"
    and "readFromEnvironment (Atoi w) (ParseDuration w) (DefaultTimeout w) (environ w) (flags w)
           = (c, None)"
    and "PrivateKey w = (skey, None)"
    and "useTLS (environ w)"
    and "LoadPublicKey w (keyFilename c) = (PublicBytes w skey, None)"
  shows "snd (main w) = Exit 0"
  using assms by (simp add: main_def)

theorem credential_reuse_exit_status_witness:
  "useTLS (environ reuse_world)
   \<and> LoadPublicKey reuse_world ''command.pem'' = (PublicBytes reuse_world 1, None)
   \<and> main reuse_world = (Call_LoadPublicKey ''command.pem'' # reuse_guidance, Exit 0)"
proof -
  have h1: "NewConfig_err reuse_world = None"
    by (simp add: reuse_world_def sample_defs)
  have h2: "readFromEnvironment (Atoi reuse_world) (ParseDuration reuse_world)
      (DefaultTimeout reuse_world) (environ reuse_world) (flags reuse_world)
      = (flags reuse_world, None)"
    by (simp add: reuse_world_def sample_defs resolver_defs)
  have h3: "PrivateKey reuse_world = (1, None)"
    by (simp add: reuse_world_def sample_defs)
  have h4: "useTLS (environ reuse_world)"
    by (simp add: reuse_world_def sample_defs useTLS_def)
  have kf: "keyFilename (flags reuse_world) = ''command.pem''"
    by (simp add: reuse_world_def sample_defs)
  have h5: "LoadPublicKey reuse_world (keyFilename (flags reuse_world))
      = (PublicBytes reuse_world 1, None)"
    by (simp add: reuse_world_def sample_defs)
  have v: "\<not> verbose (flags reuse_world)" "host (flags reuse_world) = ''localhost''"
    by (simp_all add: reuse_world_def sample_defs)
  have tr: "fst (main reuse_world) = Call_LoadPublicKey ''command.pem'' # reuse_guidance"
    using h1 h2 h3 h4 h5 kf v by (simp add: main_def)
  from credential_reuse_exit_status [OF h1 h2 h3 h4 h5] tr h4 h5 kf show ?thesis
    by (simp add: prod_eq_iff)
qed

subsection \<open>The environment resolver\<close>

text \<open>
  C3. The precedence law, field by field. A field that holds its default when
  \<^verbatim>\<open>readFromEnvironment\<close> runs takes the value of its variable when that is set: the
  string itself for the two paths and the host, the boolean reading for the verbosity, the
  parser's value for the port and, when the call returns no error, for the timeout. A
  field that does not hold its default is left as it is.
\<close>

theorem precedence_law:
  assumes "readFromEnvironment atoi pd dt env c = (c', err)"
  shows "(certFilename c = '''' \<and> env EnvTLSCert = Some vc \<longrightarrow> certFilename c' = vc)
       \<and> (certFilename c \<noteq> '''' \<longrightarrow> certFilename c' = certFilename c)
       \<and> (keyFilename c = '''' \<and> env EnvTLSKey = Some vk \<longrightarrow> keyFilename c' = vk)
       \<and> (keyFilename c \<noteq> '''' \<longrightarrow> keyFilename c' = keyFilename c)
       \<and> (host c = ''localhost'' \<and> env EnvHost = Some vh \<longrightarrow> host c' = vh)
       \<and> (host c \<noteq> ''localhost'' \<longrightarrow> host c' = host c)
       \<and> (port c = defaultPort \<and> env EnvPort = Some vp \<longrightarrow> port c' = fst (atoi vp))
       \<and> (port c \<noteq> defaultPort \<longrightarrow> port c' = port c)
       \<and> (timeout c = dt \<and> env EnvTimeout = Some vt \<and> err = None \<longrightarrow> timeout c' = fst (pd vt))
       \<and> (timeout c \<noteq> dt \<longrightarrow> timeout c' = timeout c)
       \<and> (\<not> verbose c \<and> env EnvVerbose = Some vv \<longrightarrow> verbose c' = (vv \<noteq> ''false'' \<and> vv \<noteq> ''0''))
       \<and> (verbose c \<longrightarrow> verbose c')"
proof -
  let ?R = "readFromEnvironment atoi pd dt env c"
  have c': "c' = fst ?R" and err: "err = snd ?R"
    using assms by simp_all
  have cert: "certFilename c = '''' \<and> env EnvTLSCert = Some vc \<longrightarrow> certFilename c' = vc"
    by (simp add: c' rFE_certFilename Getenv_def)
  have cert': "certFilename c \<noteq> '''' \<longrightarrow> certFilename c' = certFilename c"
    by (simp add: c' rFE_certFilename)
  have key: "keyFilename c = '''' \<and> env EnvTLSKey = Some vk \<longrightarrow> keyFilename c' = vk"
    by (simp add: c' rFE_keyFilename Getenv_def)
  have key': "keyFilename c \<noteq> '''' \<longrightarrow> keyFilename c' = keyFilename c"
    by (simp add: c' rFE_keyFilename)
  have hst: "host c = ''localhost'' \<and> env EnvHost = Some vh \<longrightarrow> host c' = vh"
    by (simp add: c' rFE_host)
  have hst': "host c \<noteq> ''localhost'' \<longrightarrow> host c' = host c"
    by (simp add: c' rFE_host)
  have prt: "port c = defaultPort \<and> env EnvPort = Some vp \<longrightarrow> port c' = fst (atoi vp)"
    by (simp add: c' rFE_port)
  have prt': "port c \<noteq> defaultPort \<longrightarrow> port c' = port c"
    by (simp add: c' rFE_port)
  have tmo: "timeout c = dt \<and> env EnvTimeout = Some vt \<and> err = None \<longrightarrow> timeout c' = fst (pd vt)"
    by (auto simp: c' err rFE_timeout rFE_err split: if_splits)
  have tmo': "timeout c \<noteq> dt \<longrightarrow> timeout c' = timeout c"
    by (simp add: c' rFE_timeout)
  have vrb: "\<not> verbose c \<and> env EnvVerbose = Some vv \<longrightarrow> verbose c' = (vv \<noteq> ''false'' \<and> vv \<noteq> ''0'')"
    by (simp add: c' rFE_verbose)
  have vrb': "verbose c \<longrightarrow> verbose c'"
    by (simp add: c' rFE_verbose)
  from cert cert' key key' hst hst' prt prt' tmo tmo' vrb vrb' show ?thesis
    by blast
qed

theorem precedence_law_witness:
  "readFromEnvironment sample_Atoi sample_ParseDuration sample_DefaultTimeout sample_env
     (flag_defaults sample_DefaultTimeout)
   = (\<lparr>keyFilename = ''tls.pem'', certFilename = ''cert.pem'', verbose = True,
       host = ''0.0.0.0'', port = 9090, timeout = 30000000000\<rparr>, None)
   \<and> readFromEnvironment sample_Atoi sample_ParseDuration sample_DefaultTimeout sample_env
         sample_flags
       = (sample_flags, None)"
proof -
  let ?R = "readFromEnvironment sample_Atoi sample_ParseDuration sample_DefaultTimeout sample_env"
  have e: "sample_env EnvTLSCert = Some ''cert.pem''" "sample_env EnvTLSKey = Some ''tls.pem''"
    "sample_env EnvHost = Some ''0.0.0.0''" "sample_env EnvPort = Some ''9090''"
    "sample_env EnvTimeout = Some ''30s''" "sample_env EnvVerbose = Some ''yes''"
    by (simp_all add: sample_env_def Env_defs)
  have ok1: "snd (?R (flag_defaults sample_DefaultTimeout)) = None"
    by (simp add: rFE_err resolve_port_err resolve_timeout_err e sample_Atoi_def
        sample_ParseDuration_def flag_defaults_def)
  have ok2: "snd (?R sample_flags) = None"
    by (simp add: rFE_err resolve_port_err resolve_timeout_err sample_flags_def
        sample_DefaultTimeout_def defaultPort_def)
  have d: "certFilename (flag_defaults sample_DefaultTimeout) = ''''"
    "keyFilename (flag_defaults sample_DefaultTimeout) = ''''"
    "host (flag_defaults sample_DefaultTimeout) = ''localhost''"
    "port (flag_defaults sample_DefaultTimeout) = defaultPort"
    "timeout (flag_defaults sample_DefaultTimeout) = sample_DefaultTimeout"
    "\<not> verbose (flag_defaults sample_DefaultTimeout)"
    by (simp_all add: flag_defaults_def)
  have f: "certFilename sample_flags \<noteq> ''''" "keyFilename sample_flags \<noteq> ''''"
    "host sample_flags \<noteq> ''localhost''" "port sample_flags \<noteq> defaultPort"
    "timeout sample_flags \<noteq> sample_DefaultTimeout" "verbose sample_flags"
    by (simp_all add: sample_flags_def defaultPort_def sample_DefaultTimeout_def)
  have r1: "?R (flag_defaults sample_DefaultTimeout)
      = (\<lparr>keyFilename = ''tls.pem'', certFilename = ''cert.pem'', verbose = True,
          host = ''0.0.0.0'', port = 9090, timeout = 30000000000\<rparr>, None)"
    using precedence_law [where atoi = sample_Atoi and pd = sample_ParseDuration
        and dt = sample_DefaultTimeout and env = sample_env
        and c = "flag_defaults sample_DefaultTimeout"
        and vc = "''cert.pem''" and vk = "''tls.pem''" and vh = "''0.0.0.0''"
        and vp = "''9090''" and vt = "''30s''" and vv = "''yes''", OF surjective_pairing]
      ok1 e d
    by (simp add: prod_eq_iff sample_Atoi_def sample_ParseDuration_def)
  have r2: "?R sample_flags = (sample_flags, None)"
    using precedence_law [where atoi = sample_Atoi and pd = sample_ParseDuration
        and dt = sample_DefaultTimeout and env = sample_env and c = sample_flags,
        OF surjective_pairing]
      ok2 f
    by (simp add: prod_eq_iff)
  from r1 r2 show ?thesis
    by simp
qed

text \<open>
  C4, as the code has it. A port variable that \<^verbatim>\<open>strconv.Atoi\<close> rejects, with the port
  at its default, makes \<^verbatim>\<open>readFromEnvironment\<close> return the error \<^verbatim>\<open>invalid port:\<close>
  followed by the raw value. A timeout variable that \<^verbatim>\<open>time.ParseDuration\<close> rejects, with
  the timeout at its default, makes it return \<^verbatim>\<open>invalid timeout:\<close> followed by the raw
  value when the port step has returned no error; when the port step has returned its
  error, that error is the one returned and the timeout variable is not looked at. The
  message holds the word \<^verbatim>\<open>port\<close> or \<^verbatim>\<open>timeout\<close>, not the name of the environment
  variable. On every error of \<^verbatim>\<open>readFromEnvironment\<close> the run of \<^verbatim>\<open>main\<close> is one line
  on standard error and exit status 1: the key is not loaded, the key comparison does not
  run and no listener is started.
\<close>

theorem unparsable_value_aborts:
  assumes "NewConfig_err w = None"
    and "readFromEnvironment (Atoi w) (ParseDuration w) (DefaultTimeout w) (environ w) (flags w)
           = (c, err)"
  shows "(port (flags w) = defaultPort \<and> environ w EnvPort = Some s \<and> snd (Atoi w s) \<noteq> None \<longrightarrow>
            err = Some (''invalid port: '' @ s))
       \<and> (timeout (flags w) = DefaultTimeout w \<and> environ w EnvTimeout = Some t
            \<and> snd (ParseDuration w t) \<noteq> None \<longrightarrow>
            err = Some (case snd (resolve_port (Atoi w) (environ w) (flags w)) of
                          Some portErr \<Rightarrow> portErr
                        | None \<Rightarrow> ''invalid timeout: '' @ t))
       \<and> (err = Some msg \<longrightarrow>
            main w = ([Stderr (''Error reading environment: '' @ msg @ newline)], Exit 1))"
proof -
  have err: "err = snd (readFromEnvironment (Atoi w) (ParseDuration w) (DefaultTimeout w)
      (environ w) (flags w))"
    using assms(2) by simp
  have p: "port (flags w) = defaultPort \<and> environ w EnvPort = Some s \<and> snd (Atoi w s) \<noteq> None \<longrightarrow>
            err = Some (''invalid port: '' @ s)"
    by (auto simp: err rFE_err resolve_port_err)
  have t: "timeout (flags w) = DefaultTimeout w \<and> environ w EnvTimeout = Some t
            \<and> snd (ParseDuration w t) \<noteq> None \<longrightarrow>
            err = Some (case snd (resolve_port (Atoi w) (environ w) (flags w)) of
                          Some portErr \<Rightarrow> portErr
                        | None \<Rightarrow> ''invalid timeout: '' @ t)"
    by (auto simp: err rFE_err resolve_timeout_err)
  have m: "err = Some msg \<longrightarrow>
            main w = ([Stderr (''Error reading environment: '' @ msg @ newline)], Exit 1)"
    using assms by (simp add: main_def)
  from p t m show ?thesis
    by blast
qed

theorem unparsable_value_aborts_witness:
  "main (sample_world\<lparr>environ := [EnvPort \<mapsto> ''abc'']\<rparr>)
     = ([Stderr (''Error reading environment: invalid port: abc'' @ newline)], Exit 1)
   \<and> main (sample_world\<lparr>environ := [EnvTimeout \<mapsto> ''soon'']\<rparr>)
     = ([Stderr (''Error reading environment: invalid timeout: soon'' @ newline)], Exit 1)
   \<and> main (sample_world\<lparr>environ := [EnvPort \<mapsto> ''abc'', EnvTimeout \<mapsto> ''soon'']\<rparr>)
     = ([Stderr (''Error reading environment: invalid port: abc'' @ newline)], Exit 1)"
proof -
  let ?wp = "sample_world\<lparr>environ := [EnvPort \<mapsto> ''abc'']\<rparr>"
  let ?wt = "sample_world\<lparr>environ := [EnvTimeout \<mapsto> ''soon'']\<rparr>"
  let ?wb = "sample_world\<lparr>environ := [EnvPort \<mapsto> ''abc'', EnvTimeout \<mapsto> ''soon'']\<rparr>"
  have p: "port (flags ?wp) = defaultPort \<and> environ ?wp EnvPort = Some ''abc''
      \<and> snd (Atoi ?wp ''abc'') \<noteq> None"
    by (simp add: sample_world_fields flag_defaults_def sample_Atoi_def)
  have t: "timeout (flags ?wt) = DefaultTimeout ?wt \<and> environ ?wt EnvTimeout = Some ''soon''
      \<and> snd (ParseDuration ?wt ''soon'') \<noteq> None"
    by (simp add: sample_world_fields flag_defaults_def sample_ParseDuration_def)
  have tp: "snd (resolve_port (Atoi ?wt) (environ ?wt) (flags ?wt)) = None"
    by (simp add: sample_world_fields resolve_port_err Env_defs)
  have b: "timeout (flags ?wb) = DefaultTimeout ?wb \<and> environ ?wb EnvTimeout = Some ''soon''
      \<and> snd (ParseDuration ?wb ''soon'') \<noteq> None"
    by (simp add: sample_world_fields flag_defaults_def sample_ParseDuration_def)
  have bp: "snd (resolve_port (Atoi ?wb) (environ ?wb) (flags ?wb)) = Some ''invalid port: abc''"
    by (simp add: sample_world_fields resolve_port_err Env_defs flag_defaults_def sample_Atoi_def)
  have 1: "main ?wp = ([Stderr (''Error reading environment: invalid port: abc'' @ newline)], Exit 1)"
    using unparsable_value_aborts [where w = ?wp and s = "''abc''" and msg = "''invalid port: abc''",
        OF _ surjective_pairing] p
    by (simp add: sample_world_fields)
  have 2: "main ?wt = ([Stderr (''Error reading environment: invalid timeout: soon'' @ newline)], Exit 1)"
    using unparsable_value_aborts [where w = ?wt and t = "''soon''"
        and msg = "''invalid timeout: soon''", OF _ surjective_pairing] t tp
    by (simp add: sample_world_fields)
  have 3: "main ?wb = ([Stderr (''Error reading environment: invalid port: abc'' @ newline)], Exit 1)"
    using unparsable_value_aborts [where w = ?wb and t = "''soon''"
        and msg = "''invalid port: abc''", OF _ surjective_pairing] b bp
    by (simp add: sample_world_fields)
  from 1 2 3 show ?thesis
    by simp
qed

text \<open>
  Both variables rejected: the timeout is at its default and its variable holds
  \<^verbatim>\<open>soon\<close>, which does not parse, and the error returned is the one of the port. It holds
  neither the word \<^verbatim>\<open>timeout\<close> nor the raw value \<^verbatim>\<open>soon\<close>, and no name of an
  environment variable.
\<close>

theorem timeout_error_masked_counterexample:
  "timeout (flags both_rejected_world) = DefaultTimeout both_rejected_world
   \<and> environ both_rejected_world EnvTimeout = Some ''soon''
   \<and> snd (ParseDuration both_rejected_world ''soon'') \<noteq> None
   \<and> snd (readFromEnvironment (Atoi both_rejected_world) (ParseDuration both_rejected_world)
          (DefaultTimeout both_rejected_world) (environ both_rejected_world)
          (flags both_rejected_world))
      = Some ''invalid port: abc''
   \<and> \<not> mentions ''timeout'' ''invalid port: abc''
   \<and> \<not> mentions ''soon'' ''invalid port: abc''
   \<and> \<not> mentions EnvTimeout ''invalid port: abc''
   \<and> \<not> mentions EnvPort ''invalid port: abc''"
proof -
  have f: "flags both_rejected_world = flag_defaults sample_DefaultTimeout"
    "DefaultTimeout both_rejected_world = sample_DefaultTimeout"
    "Atoi both_rejected_world = sample_Atoi"
    "ParseDuration both_rejected_world = sample_ParseDuration"
    "environ both_rejected_world = [EnvPort \<mapsto> ''abc'', EnvTimeout \<mapsto> ''soon'']"
    by (simp_all add: both_rejected_world_def sample_world_fields)
  have hyp: "timeout (flags both_rejected_world) = DefaultTimeout both_rejected_world"
    "environ both_rejected_world EnvTimeout = Some ''soon''"
    "snd (ParseDuration both_rejected_world ''soon'') \<noteq> None"
    by (simp_all add: f flag_defaults_def sample_ParseDuration_def)
  have err: "snd (readFromEnvironment (Atoi both_rejected_world)
      (ParseDuration both_rejected_world) (DefaultTimeout both_rejected_world)
      (environ both_rejected_world) (flags both_rejected_world))
      = Some ''invalid port: abc''"
    by (simp add: f rFE_err resolve_port_err Env_defs flag_defaults_def sample_Atoi_def)
  have absent: "\<not> mentions ''timeout'' ''invalid port: abc''"
    "\<not> mentions ''soon'' ''invalid port: abc''"
    "\<not> mentions EnvTimeout ''invalid port: abc''"
    "\<not> mentions EnvPort ''invalid port: abc''"
    by (simp_all add: Env_defs)
  from hyp err absent show ?thesis
    by simp
qed

text \<open>
  C7. The verbosity field. When it is false and \<^verbatim>\<open>TESLA_VERBOSE\<close> is set, it becomes
  false for the values \<^verbatim>\<open>false\<close> and \<^verbatim>\<open>0\<close> and true for every other value, the
  empty string included. When the variable is not set the field is unchanged.
\<close>

theorem verbose_resolution:
  assumes "readFromEnvironment atoi pd dt env c = (c', err)"
  shows "(\<not> verbose c \<and> env EnvVerbose = Some v \<longrightarrow> verbose c' = (v \<noteq> ''false'' \<and> v \<noteq> ''0''))
       \<and> (env EnvVerbose = None \<longrightarrow> verbose c' = verbose c)"
proof -
  have "verbose c' = verbose (fst (readFromEnvironment atoi pd dt env c))"
    using assms by simp
  then show ?thesis
    by (simp add: rFE_verbose)
qed

theorem verbose_resolution_witness:
  "\<not> verbose (fst (readFromEnvironment sample_Atoi sample_ParseDuration sample_DefaultTimeout
        [EnvVerbose \<mapsto> ''false''] (flag_defaults sample_DefaultTimeout)))
   \<and> \<not> verbose (fst (readFromEnvironment sample_Atoi sample_ParseDuration sample_DefaultTimeout
        [EnvVerbose \<mapsto> ''0''] (flag_defaults sample_DefaultTimeout)))
   \<and> verbose (fst (readFromEnvironment sample_Atoi sample_ParseDuration sample_DefaultTimeout
        [EnvVerbose \<mapsto> ''''] (flag_defaults sample_DefaultTimeout)))
   \<and> verbose (fst (readFromEnvironment sample_Atoi sample_ParseDuration sample_DefaultTimeout
        [EnvVerbose \<mapsto> ''yes''] (flag_defaults sample_DefaultTimeout)))
   \<and> \<not> verbose (fst (readFromEnvironment sample_Atoi sample_ParseDuration sample_DefaultTimeout
        Map.empty (flag_defaults sample_DefaultTimeout)))"
  using
    verbose_resolution [where atoi = sample_Atoi and pd = sample_ParseDuration
      and dt = sample_DefaultTimeout and env = "[EnvVerbose \<mapsto> ''false'']"
      and c = "flag_defaults sample_DefaultTimeout" and v = "''false''", OF surjective_pairing]
    verbose_resolution [where atoi = sample_Atoi and pd = sample_ParseDuration
      and dt = sample_DefaultTimeout and env = "[EnvVerbose \<mapsto> ''0'']"
      and c = "flag_defaults sample_DefaultTimeout" and v = "''0''", OF surjective_pairing]
    verbose_resolution [where atoi = sample_Atoi and pd = sample_ParseDuration
      and dt = sample_DefaultTimeout and env = "[EnvVerbose \<mapsto> '''']"
      and c = "flag_defaults sample_DefaultTimeout" and v = "''''", OF surjective_pairing]
    verbose_resolution [where atoi = sample_Atoi and pd = sample_ParseDuration
      and dt = sample_DefaultTimeout and env = "[EnvVerbose \<mapsto> ''yes'']"
      and c = "flag_defaults sample_DefaultTimeout" and v = "''yes''", OF surjective_pairing]
    verbose_resolution [where atoi = sample_Atoi and pd = sample_ParseDuration
      and dt = sample_DefaultTimeout and env = "Map.empty"
      and c = "flag_defaults sample_DefaultTimeout", OF surjective_pairing]
  by (simp add: flag_defaults_def)

text \<open>
  C10. \<^verbatim>\<open>readFromEnvironment\<close> is idempotent on its successful results: a second call
  on the record a successful call has left, in the same environment, returns no error and
  the same record. A field that the first call has set to its own default is set again to
  the same value.
\<close>

theorem readFromEnvironment_idempotent:
  assumes "readFromEnvironment atoi pd dt env c = (c', None)"
  shows "readFromEnvironment atoi pd dt env c' = (c', None)"
proof -
  let ?R = "readFromEnvironment atoi pd dt env"
  have c': "fst (?R c) = c'" and ok: "snd (?R c) = None"
    using assms by simp_all
  have pok: "snd (resolve_port atoi env c) = None"
    using ok by (simp add: rFE_err split: if_splits)
  have tok: "snd (resolve_timeout pd dt env c) = None"
    using ok pok by (simp add: rFE_err)
  have cert: "certFilename c' = (if certFilename c = '''' then Getenv env EnvTLSCert else certFilename c)"
    using rFE_certFilename [of atoi pd dt env c] c' by simp
  have key: "keyFilename c' = (if keyFilename c = '''' then Getenv env EnvTLSKey else keyFilename c)"
    using rFE_keyFilename [of atoi pd dt env c] c' by simp
  have hst: "host c' =
      (if host c = ''localhost'' then (case env EnvHost of Some h \<Rightarrow> h | None \<Rightarrow> host c) else host c)"
    using rFE_host [of atoi pd dt env c] c' by simp
  have vrb: "verbose c' =
      (if verbose c then True
       else (case env EnvVerbose of Some v \<Rightarrow> v \<noteq> ''false'' \<and> v \<noteq> ''0'' | None \<Rightarrow> False))"
    using rFE_verbose [of atoi pd dt env c] c' by simp
  have prt: "port c' =
      (if port c = defaultPort then (case env EnvPort of Some p \<Rightarrow> fst (atoi p) | None \<Rightarrow> port c)
       else port c)"
    using rFE_port [of atoi pd dt env c] c' by simp
  have tmo: "timeout c' =
      (if timeout c = dt then (case env EnvTimeout of Some t \<Rightarrow> fst (pd t) | None \<Rightarrow> timeout c)
       else timeout c)"
    using rFE_timeout [of atoi pd dt env c] c' pok by simp
  have pok': "snd (resolve_port atoi env c') = None"
    using pok prt by (auto simp: resolve_port_err split: option.splits if_splits)
  have tok': "snd (resolve_timeout pd dt env c') = None"
    using tok tmo by (auto simp: resolve_timeout_err split: option.splits if_splits)
  have err': "snd (?R c') = None"
    by (simp add: rFE_err pok' tok')
  have "certFilename (fst (?R c')) = certFilename c'"
    by (simp add: rFE_certFilename cert)
  moreover have "keyFilename (fst (?R c')) = keyFilename c'"
    by (simp add: rFE_keyFilename key)
  moreover have "host (fst (?R c')) = host c'"
    using hst by (simp add: rFE_host split: option.splits if_splits)
  moreover have "verbose (fst (?R c')) = verbose c'"
    using vrb by (simp add: rFE_verbose split: option.splits if_splits)
  moreover have "port (fst (?R c')) = port c'"
    using prt by (simp add: rFE_port split: option.splits if_splits)
  moreover have "timeout (fst (?R c')) = timeout c'"
    using tmo pok' by (simp add: rFE_timeout split: option.splits if_splits)
  ultimately have "fst (?R c') = c'"
    by (intro HTTProxyConfig.equality) simp_all
  with err' show ?thesis
    by (simp add: prod_eq_iff)
qed

theorem readFromEnvironment_idempotent_witness:
  "readFromEnvironment sample_Atoi sample_ParseDuration sample_DefaultTimeout sample_env
     (flag_defaults sample_DefaultTimeout)
   = (\<lparr>keyFilename = ''tls.pem'', certFilename = ''cert.pem'', verbose = True,
       host = ''0.0.0.0'', port = 9090, timeout = 30000000000\<rparr>, None)
   \<and> readFromEnvironment sample_Atoi sample_ParseDuration sample_DefaultTimeout sample_env
       \<lparr>keyFilename = ''tls.pem'', certFilename = ''cert.pem'', verbose = True,
        host = ''0.0.0.0'', port = 9090, timeout = 30000000000\<rparr>
     = (\<lparr>keyFilename = ''tls.pem'', certFilename = ''cert.pem'', verbose = True,
         host = ''0.0.0.0'', port = 9090, timeout = 30000000000\<rparr>, None)"
proof -
  have first: "readFromEnvironment sample_Atoi sample_ParseDuration sample_DefaultTimeout
      sample_env (flag_defaults sample_DefaultTimeout)
    = (\<lparr>keyFilename = ''tls.pem'', certFilename = ''cert.pem'', verbose = True,
        host = ''0.0.0.0'', port = 9090, timeout = 30000000000\<rparr>, None)"
    by (simp add: resolver_defs sample_defs Env_defs)
  from readFromEnvironment_idempotent [OF first] first show ?thesis
    by simp
qed

subsection \<open>The transport selector\<close>

text \<open>
  C5. In a run that reaches the selector (the configuration, the environment and the
  command key have loaded, the key comparison has not found a reused key and the proxy has been
  created) exactly one listener call is made, on \<^verbatim>\<open>host:port\<close> and with the proxy as
  handler. It is \<^verbatim>\<open>ListenAndServeTLS\<close> if and only if TLS is not disabled and the
  certificate path and the key path are both non-empty, and \<^verbatim>\<open>ListenAndServe\<close>
  otherwise. With an empty environment and the flag defaults it is the plaintext listener
  on \<^verbatim>\<open>localhost:8080\<close>.
\<close>

theorem transport_decision:
  assumes "NewConfig_err w = None"
    and "readFromEnvironment (Atoi w) (ParseDuration w) (DefaultTimeout w) (environ w) (flags w)
           = (c, None)"
    and "PrivateKey w = (skey, None)"
    and "\<not> (useTLS (environ w) \<and> LoadPublicKey w (keyFilename c) = (PublicBytes w skey, None))"
    and "proxy_New w skey cacheSize = (p0, None)"
  shows "filter is_listener (fst (main w)) =
           [if useTLS (environ w) \<and> certFilename c \<noteq> '''' \<and> keyFilename c \<noteq> ''''
            then Call_ListenAndServeTLS (host c @ '':'' @ Sprintf_d (port c)) (certFilename c)
                   (keyFilename c) (p0\<lparr>Timeout := timeout c\<rparr>)
            else Call_ListenAndServe (host c @ '':'' @ Sprintf_d (port c))
                   (p0\<lparr>Timeout := timeout c\<rparr>)]
       \<and> (list_ex is_TLS_listener (fst (main w)) \<longleftrightarrow>
            useTLS (environ w) \<and> certFilename c \<noteq> '''' \<and> keyFilename c \<noteq> '''')
       \<and> (environ w = Map.empty \<and> flags w = flag_defaults (DefaultTimeout w) \<longrightarrow>
            filter is_listener (fst (main w)) =
              [Call_ListenAndServe ''localhost:8080'' (p0\<lparr>Timeout := DefaultTimeout w\<rparr>)])"
proof -
  let ?sel = "[if useTLS (environ w) \<and> certFilename c \<noteq> '''' \<and> keyFilename c \<noteq> ''''
            then Call_ListenAndServeTLS (host c @ '':'' @ Sprintf_d (port c)) (certFilename c)
                   (keyFilename c) (p0\<lparr>Timeout := timeout c\<rparr>)
            else Call_ListenAndServe (host c @ '':'' @ Sprintf_d (port c))
                   (p0\<lparr>Timeout := timeout c\<rparr>)]"
  have l: "filter is_listener (fst (main w)) = ?sel"
  proof (cases "useTLS (environ w)")
    case False
    with assms show ?thesis
      by (simp add: main_def serve_listeners)
  next
    case True
    obtain k e where lk: "LoadPublicKey w (keyFilename c) = (k, e)"
      by (cases "LoadPublicKey w (keyFilename c)")
    with True assms(4) have "e = None \<Longrightarrow> k \<noteq> PublicBytes w skey"
      by auto
    with True lk assms(1,2,3,5) show ?thesis
      by (cases e) (simp_all add: main_def serve_listeners)
  qed
  have t: "list_ex is_TLS_listener (fst (main w)) \<longleftrightarrow>
            useTLS (environ w) \<and> certFilename c \<noteq> '''' \<and> keyFilename c \<noteq> ''''"
  proof -
    have "list_ex is_TLS_listener (fst (main w)) =
        list_ex is_TLS_listener (filter is_listener (fst (main w)))"
      by (simp only: list_ex_TLS_listener_filter)
    also have "\<dots> \<longleftrightarrow> useTLS (environ w) \<and> certFilename c \<noteq> [] \<and> keyFilename c \<noteq> []"
      by (simp add: l)
    finally show ?thesis .
  qed
  have a: "environ w = Map.empty \<and> flags w = flag_defaults (DefaultTimeout w) \<longrightarrow>
            filter is_listener (fst (main w)) =
              [Call_ListenAndServe ''localhost:8080'' (p0\<lparr>Timeout := DefaultTimeout w\<rparr>)]"
  proof
    assume d: "environ w = Map.empty \<and> flags w = flag_defaults (DefaultTimeout w)"
    with assms(2) have "c = flag_defaults (DefaultTimeout w)"
      by (simp add: readFromEnvironment_empty_defaults)
    then have "certFilename c = ''''" "host c = ''localhost''" "port c = 8080"
      "timeout c = DefaultTimeout w"
      by (simp_all add: flag_defaults_def defaultPort_def)
    with l show "filter is_listener (fst (main w)) =
              [Call_ListenAndServe ''localhost:8080'' (p0\<lparr>Timeout := DefaultTimeout w\<rparr>)]"
      by (simp add: Sprintf_d_8080)
  qed
  from l t a show ?thesis
    by blast
qed

theorem transport_decision_witness:
  "filter is_listener (fst (main sample_world)) =
     [Call_ListenAndServe ''localhost:8080'' \<lparr>Timeout = 10000000000, engine = ()\<rparr>]
   \<and> filter is_listener (fst (main (sample_world\<lparr>environ := sample_env\<rparr>))) =
     [Call_ListenAndServeTLS ''0.0.0.0:9090'' ''cert.pem'' ''tls.pem''
        \<lparr>Timeout = 30000000000, engine = ()\<rparr>]"
proof -
  let ?w = "sample_world\<lparr>environ := sample_env\<rparr>"
  let ?p0 = "\<lparr>Timeout = sample_DefaultTimeout, engine = ()\<rparr>"
  have a2: "readFromEnvironment (Atoi sample_world) (ParseDuration sample_world)
      (DefaultTimeout sample_world) (environ sample_world) (flags sample_world)
      = (flag_defaults sample_DefaultTimeout, None)"
    by (simp add: sample_world_fields readFromEnvironment_empty_defaults)
  have a4: "\<not> (useTLS (environ sample_world)
      \<and> LoadPublicKey sample_world (keyFilename (flag_defaults sample_DefaultTimeout))
          = (PublicBytes sample_world 1, None))"
    by (simp add: sample_world_fields sample_LoadPublicKey_def flag_defaults_def)
  have a5: "proxy_New sample_world 1 cacheSize = (?p0, None)"
    by (simp add: sample_world_fields)
  have b2: "readFromEnvironment (Atoi ?w) (ParseDuration ?w) (DefaultTimeout ?w) (environ ?w)
      (flags ?w)
      = (\<lparr>keyFilename = ''tls.pem'', certFilename = ''cert.pem'', verbose = True,
          host = ''0.0.0.0'', port = 9090, timeout = 30000000000\<rparr>, None)"
    by (simp add: sample_world_fields sample_resolution)
  have b4: "\<not> (useTLS (environ ?w)
      \<and> LoadPublicKey ?w (keyFilename \<lparr>keyFilename = ''tls.pem'', certFilename = ''cert.pem'',
            verbose = True, host = ''0.0.0.0'', port = 9090, timeout = 30000000000\<rparr>)
          = (PublicBytes ?w 1, None))"
    by (simp add: sample_world_fields sample_LoadPublicKey_def)
  have b5: "proxy_New ?w 1 cacheSize = (?p0, None)"
    by (simp add: sample_world_fields)
  have u: "useTLS (environ ?w)"
    by (simp add: sample_world_fields useTLS_def sample_env_def Env_defs)
  from
    transport_decision [of sample_world, OF _ a2 _ a4 a5]
    transport_decision [of ?w, OF _ b2 _ b4 b5]
    u
  show ?thesis
    by (simp add: sample_world_fields sample_DefaultTimeout_def Sprintf_d_9090 Sprintf_d_8080
        flag_defaults_def defaultPort_def useTLS_def)
qed

text \<open>
  C6. When TLS is enabled and loading the key file fails, whatever the path and the error,
  the key comparison writes one debug message and \<^verbatim>\<open>main\<close> goes on with the creation of the proxy
  and the listener. What follows the message is what follows the other debug message
  in the run where the file loads as a key different from the command key.
\<close>

theorem unloadable_tls_key_passes:
  assumes "NewConfig_err w = None"
    and "readFromEnvironment (Atoi w) (ParseDuration w) (DefaultTimeout w) (environ w) (flags w)
           = (c, None)"
    and "PrivateKey w = (skey, None)"
    and "useTLS (environ w)"
    and "LoadPublicKey w (keyFilename c) = (k, Some e)"
  shows "main w =
           emit ((if verbose c then [SetLevelDebug] else []) @
                 (if host c \<noteq> ''localhost'' then [Stderr (nonLocalhostWarning @ newline)] else []) @
                 [Call_LoadPublicKey (keyFilename c),
                  LogDebug ''Verified that TLS key is not a recycled command-authentication key, because it is not NIST P256.''])
             (serve w c skey True)
       \<and> (other \<noteq> PublicBytes w skey \<longrightarrow>
            main (w\<lparr>LoadPublicKey := (\<lambda>f. (other, None))\<rparr>) =
              emit ((if verbose c then [SetLevelDebug] else []) @
                    (if host c \<noteq> ''localhost'' then [Stderr (nonLocalhostWarning @ newline)] else []) @
                    [Call_LoadPublicKey (keyFilename c),
                     LogDebug ''Verified that TLS key is not the same as the command-authentication key.''])
                (serve w c skey True))
       \<and> take 2 (fst (serve w c skey True)) = [LogDebug ''Creating proxy'', Call_proxy_New]"
proof -
  have a: "main w =
           emit ((if verbose c then [SetLevelDebug] else []) @
                 (if host c \<noteq> ''localhost'' then [Stderr (nonLocalhostWarning @ newline)] else []) @
                 [Call_LoadPublicKey (keyFilename c),
                  LogDebug ''Verified that TLS key is not a recycled command-authentication key, because it is not NIST P256.''])
             (serve w c skey True)"
    using assms by (simp add: main_def emit_def)
  have b: "other \<noteq> PublicBytes w skey \<longrightarrow>
            main (w\<lparr>LoadPublicKey := (\<lambda>f. (other, None))\<rparr>) =
              emit ((if verbose c then [SetLevelDebug] else []) @
                    (if host c \<noteq> ''localhost'' then [Stderr (nonLocalhostWarning @ newline)] else []) @
                    [Call_LoadPublicKey (keyFilename c),
                     LogDebug ''Verified that TLS key is not the same as the command-authentication key.''])
                (serve w c skey True)"
    using assms(1-4) by (simp add: main_def emit_def serve_LoadPublicKey_irrelevant)
  from a b serve_starts [of w c skey True] show ?thesis
    by blast
qed

theorem unloadable_tls_key_passes_witness:
  "main unreadable_key_world =
     ([Call_LoadPublicKey ''missing.pem'',
       LogDebug ''Verified that TLS key is not a recycled command-authentication key, because it is not NIST P256.'',
       LogDebug ''Creating proxy'',
       Call_proxy_New,
       LogInfo ''Listening on localhost:8080'',
       Call_ListenAndServeTLS ''localhost:8080'' ''cert.pem'' ''missing.pem''
         \<lparr>Timeout = 10000000000, engine = ()\<rparr>],
      Serving)
   \<and> main (unreadable_key_world\<lparr>LoadPublicKey := (\<lambda>f. ([4, 9, 8, 7], None))\<rparr>) =
     ([Call_LoadPublicKey ''missing.pem'',
       LogDebug ''Verified that TLS key is not the same as the command-authentication key.'',
       LogDebug ''Creating proxy'',
       Call_proxy_New,
       LogInfo ''Listening on localhost:8080'',
       Call_ListenAndServeTLS ''localhost:8080'' ''cert.pem'' ''missing.pem''
         \<lparr>Timeout = 10000000000, engine = ()\<rparr>],
      Serving)"
proof -
  let ?c = "(flag_defaults sample_DefaultTimeout)\<lparr>certFilename := ''cert.pem'', keyFilename := ''missing.pem''\<rparr>"
  have h1: "NewConfig_err unreadable_key_world = None"
    by (simp add: unreadable_key_world_fields)
  have h2: "readFromEnvironment (Atoi unreadable_key_world) (ParseDuration unreadable_key_world)
      (DefaultTimeout unreadable_key_world) (environ unreadable_key_world)
      (flags unreadable_key_world) = (?c, None)"
    by (simp add: unreadable_key_world_fields resolver_defs flag_defaults_def)
  have h3: "PrivateKey unreadable_key_world = (1, None)"
    by (simp add: unreadable_key_world_fields)
  have h4: "useTLS (environ unreadable_key_world)"
    by (simp add: unreadable_key_world_fields useTLS_def)
  have h5: "LoadPublicKey unreadable_key_world (keyFilename ?c)
      = ([], Some ''open missing.pem: no such file or directory'')"
    by (simp add: unreadable_key_world_fields sample_LoadPublicKey_def)
  have o: "[4, 9, 8, 7] \<noteq> PublicBytes unreadable_key_world 1"
    by (simp add: unreadable_key_world_fields)
  have s: "serve unreadable_key_world ?c 1 True =
     ([LogDebug ''Creating proxy'',
       Call_proxy_New,
       LogInfo ''Listening on localhost:8080'',
       Call_ListenAndServeTLS ''localhost:8080'' ''cert.pem'' ''missing.pem''
         \<lparr>Timeout = 10000000000, engine = ()\<rparr>],
      Serving)"
    by (simp add: serve_def emit_def Let_def unreadable_key_world_fields flag_defaults_def
        defaultPort_def Sprintf_d_8080 sample_DefaultTimeout_def)
  from unloadable_tls_key_passes [OF h1 h2 h3 h4 h5, of "[4, 9, 8, 7]"] o s show ?thesis
    by (simp add: emit_def flag_defaults_def)
qed

text \<open>
  C8, as the code has it. In a run that gets past the resolution of the environment, the
  warning is written to standard error if and only if the resolved host is not the string
  \<^verbatim>\<open>localhost\<close>. The comparison is with that name, not with the loopback interface: the
  host \<^verbatim>\<open>127.0.0.1\<close> is warned about as any other.
\<close>

theorem exposure_warning_iff_not_localhost:
  assumes "NewConfig_err w = None"
    and "readFromEnvironment (Atoi w) (ParseDuration w) (DefaultTimeout w) (environ w) (flags w)
           = (c, None)"
  shows "Stderr (nonLocalhostWarning @ newline) \<in> set (fst (main w)) \<longleftrightarrow> host c \<noteq> ''localhost''"
proof -
  obtain skey kerr where pk: "PrivateKey w = (skey, kerr)"
    by (cases "PrivateKey w")
  obtain k lerr where lk: "LoadPublicKey w (keyFilename c) = (k, lerr)"
    by (cases "LoadPublicKey w (keyFilename c)")
  show ?thesis
    using assms pk lk
    by (cases kerr; cases lerr)
       (simp_all add: main_def warning_notin_serve warning_notin_guidance)
qed

theorem exposure_warning_iff_not_localhost_witness:
  "Stderr (nonLocalhostWarning @ newline) \<in> set (fst (main numeric_loopback_world))
   \<and> Stderr (nonLocalhostWarning @ newline) \<notin> set (fst (main sample_world))"
proof -
  have a: "readFromEnvironment (Atoi sample_world) (ParseDuration sample_world)
      (DefaultTimeout sample_world) (environ sample_world) (flags sample_world)
      = (flag_defaults sample_DefaultTimeout, None)"
    by (simp add: sample_world_fields readFromEnvironment_empty_defaults)
  from
    exposure_warning_iff_not_localhost [OF _ numeric_loopback_resolution]
    exposure_warning_iff_not_localhost [OF _ a]
  show ?thesis
    by (simp add: numeric_loopback_world_fields sample_world_fields flag_defaults_def)
qed

text \<open>The loopback address \<^verbatim>\<open>127.0.0.1\<close> as resolved host: the warning is written.\<close>

theorem loopback_address_warned_counterexample:
  "NewConfig_err numeric_loopback_world = None
   \<and> readFromEnvironment (Atoi numeric_loopback_world) (ParseDuration numeric_loopback_world)
        (DefaultTimeout numeric_loopback_world) (environ numeric_loopback_world)
        (flags numeric_loopback_world)
      = ((flag_defaults sample_DefaultTimeout)\<lparr>host := ''127.0.0.1''\<rparr>, None)
   \<and> host ((flag_defaults sample_DefaultTimeout)\<lparr>host := ''127.0.0.1''\<rparr>) = ''127.0.0.1''
   \<and> spec_loopback_address ''127.0.0.1''
   \<and> Stderr (nonLocalhostWarning @ newline) \<in> set (fst (main numeric_loopback_world))"
proof -
  have w: "Stderr (nonLocalhostWarning @ newline) \<in> set (fst (main numeric_loopback_world))"
    using numeric_loopback_resolution numeric_loopback_world_fields(1)
    by (simp add: main_def)
  with numeric_loopback_resolution numeric_loopback_world_fields(1) show ?thesis
    by (simp add: spec_loopback_address_def)
qed

subsection \<open>The switch that disables TLS\<close>

text \<open>
  C9. Encrypted transport is switched off by \<^verbatim>\<open>TESLA_HTTP_PROXY_DISABLE_TLS\<close> exactly when
  the variable is set to the string \<^verbatim>\<open>true\<close>. With any other value, such as \<^verbatim>\<open>1\<close>,
  \<^verbatim>\<open>TRUE\<close> or \<^verbatim>\<open>yes\<close>, and when it is not set, TLS stays enabled. The convention differs
  from the one of the verbosity variable, where \<^verbatim>\<open>1\<close> means true.
\<close>

theorem useTLS_disabled_iff_true:
  "(\<not> useTLS env \<longleftrightarrow> env EnvDisableTLS = Some ''true'')
   \<and> useTLS (Map.empty(EnvDisableTLS \<mapsto> ''1''))
   \<and> useTLS (Map.empty(EnvDisableTLS \<mapsto> ''TRUE''))
   \<and> useTLS (Map.empty(EnvDisableTLS \<mapsto> ''yes''))
   \<and> useTLS Map.empty
   \<and> verbose (fst (readFromEnvironment atoi parseDuration dt
        (Map.empty(EnvVerbose \<mapsto> ''1'')) (flag_defaults dt)))"
proof -
  have disabled: "\<not> useTLS env \<longleftrightarrow> env EnvDisableTLS = Some ''true''"
    by (simp add: useTLS_def split: option.split)
  have enabled: "useTLS (Map.empty(EnvDisableTLS \<mapsto> ''1''))"
    "useTLS (Map.empty(EnvDisableTLS \<mapsto> ''TRUE''))"
    "useTLS (Map.empty(EnvDisableTLS \<mapsto> ''yes''))"
    "useTLS Map.empty"
    by (simp_all add: useTLS_def)
  have "verbose (fst (readFromEnvironment atoi parseDuration dt
        (Map.empty(EnvVerbose \<mapsto> ''1'')) (flag_defaults dt)))"
    by (simp add: rFE_verbose flag_defaults_def)
  with disabled enabled show ?thesis
    by simp
qed

end
